theory Spec2Isabelle
  imports Complex_Main "HOL-Library.Sublist"
begin

section \<open>Data model (types/index.ts)\<close>

text \<open>
  The interfaces of \<^verbatim>\<open>types/index.ts\<close>, field by field. An optional field
  (\<^verbatim>\<open>completedAt?\<close>) is an \<open>option\<close>; a \<^verbatim>\<open>number\<close> is a \<open>real\<close>; a
  \<^verbatim>\<open>Date\<close> is a time stamp. The \<^verbatim>\<open>status\<close> field is declared as the union
  \<^verbatim>\<open>'pending' | 'processing' | 'completed' | 'failed'\<close>. A union of string literals
  is a plain string when the program runs, the snapshot arrives from the network, and the
  hook compares it with \<^verbatim>\<open>===\<close> against literals, so the field is kept as a string and
  the declared union is the predicate \<open>declared_status\<close>.
\<close>

record GarmentMetadata =
  color :: "string option"
  pattern :: "string option"
  style :: "string option"

record ExtractedGarment =
  garment_id :: string
  garment_type :: string
  garment_imageUrl :: string
  maskUrl :: "string option"
  confidence :: real
  metadata :: "GarmentMetadata option"

record JobResult =
  imageUrl :: "string option"
  extractedGarments :: "ExtractedGarment list option"
  processingTime :: "real option"

record ProcessingJob =
  job_id :: string
  job_status :: string
  job_progress :: real
  job_message :: string
  createdAt :: nat
  completedAt :: "nat option"
  result :: "JobResult option"

definition declared_status :: "string \<Rightarrow> bool" where
  "declared_status st \<longleftrightarrow>
     st = ''pending'' \<or> st = ''processing'' \<or> st = ''completed'' \<or> st = ''failed''"

record File =
  file_name :: string
  file_type :: string

record TryOnRequest =
  on_modelImage :: File
  garmentImage :: File

record TryOffRequest =
  off_modelImage :: File

record ApiResponse =
  success :: bool
  data_jobId :: "string option"
  response_error :: "string option"
  response_jobId :: "string option"

text \<open>
  \<open>data_jobId\<close> is \<^verbatim>\<open>response.data?.jobId\<close>: \<open>None\<close> when \<^verbatim>\<open>data\<close> or the
  field is missing; \<open>response_jobId\<close> is the \<^verbatim>\<open>jobId\<close> of the response itself,
  which the hook never reads. The request options are handed to the transport untouched and are left
  out. A value thrown by an awaited call is either an \<^verbatim>\<open>Error\<close> object with its
  message or anything else; a promise either resolves or rejects.
\<close>

datatype thrown = ErrorObj string | NonError

datatype 'a outcome = Resolved 'a | Rejected thrown

text \<open>JavaScript truthiness of an optional string: missing and empty are falsy.\<close>

fun truthy :: "string option \<Rightarrow> bool" where
  "truthy None = False"
| "truthy (Some v) = (v \<noteq> [])"

text \<open>\<^verbatim>\<open>a || b\<close> on an optional string and a literal.\<close>

fun or_else :: "string option \<Rightarrow> string \<Rightarrow> string" where
  "or_else None d = d"
| "or_else (Some v) d = (if v = [] then d else v)"

section \<open>The processing hook (useProcessing)\<close>

text \<open>
  The five \<^verbatim>\<open>useState\<close> cells and the \<^verbatim>\<open>useRef\<close> cell of the hook. Every
  operation returns the new state together with the calls it made to its collaborators
  (\<^verbatim>\<open>apiClient\<close>, \<^verbatim>\<open>pollJobStatus\<close>, \<^verbatim>\<open>clearInterval\<close>, \<^verbatim>\<open>console.log\<close>), in
  order. The module \<^verbatim>\<open>lib/api\<close> is not part of the sources at hand, so what an awaited
  call yields is an argument of the operation that awaits it.
\<close>

record hook =
  isProcessing :: bool
  progress :: real
  message :: string
  job :: "ProcessingJob option"
  error :: "string option"
  pollingRef :: "nat option"

datatype call =
    SubmitTryOn TryOnRequest
  | SubmitTryOff TryOffRequest
  | PollJobStatus string
  | CancelJob string
  | ClearInterval nat
  | ConsoleLog string

definition initial :: hook where
  "initial = \<lparr>isProcessing = False, progress = 0, message = [], job = None,
     error = None, pollingRef = None\<rparr>"

text \<open>
  The block \<^verbatim>\<open>if (pollingRef.current) { clearInterval(pollingRef.current);
  pollingRef.current = null }\<close>, which closes three of the operations. A timer handle is
  always truthy.
\<close>

definition clear_polling :: "hook \<Rightarrow> hook \<times> call list" where
  "clear_polling s =
     (case pollingRef s of
        None \<Rightarrow> (s, [])
      | Some h \<Rightarrow> (s\<lparr>pollingRef := None\<rparr>, [ClearInterval h]))"

definition updateJobStatus :: "ProcessingJob \<Rightarrow> hook \<Rightarrow> hook \<times> call list" where
  "updateJobStatus jobStatus s =
     (let s1 = s\<lparr>job := Some jobStatus, progress := job_progress jobStatus,
                  message := job_message jobStatus\<rparr>
      in if job_status jobStatus = ''completed'' \<or> job_status jobStatus = ''failed''
         then clear_polling (s1\<lparr>isProcessing := False\<rparr>)
         else (s1, []))"

definition reset :: "hook \<Rightarrow> hook \<times> call list" where
  "reset s =
     clear_polling (s\<lparr>isProcessing := False, progress := 0, message := [],
                      job := None, error := None\<rparr>)"

text \<open>
  The \<^verbatim>\<open>catch\<close> block shared by the body of \<^verbatim>\<open>startTryOn\<close> and
  \<^verbatim>\<open>startTryOff\<close>:
  \<^verbatim>\<open>setError(err instanceof Error ? err.message : 'Failed to start processing');
  setIsProcessing(false)\<close>.
\<close>

definition start_catch :: "thrown \<Rightarrow> hook \<Rightarrow> hook" where
  "start_catch err s =
     s\<lparr>error := Some (case err of ErrorObj m \<Rightarrow> m
                                    | NonError \<Rightarrow> ''Failed to start processing''),
        isProcessing := False\<rparr>"

text \<open>
  \<^verbatim>\<open>startTryOn\<close> in two parts, split at its \<^verbatim>\<open>await\<close>: the four setters and the
  call of \<^verbatim>\<open>apiClient.submitTryOn\<close>, then what follows once the submission has
  resolved or rejected. \<^verbatim>\<open>startTryOn\<close> itself is the two in sequence. Neither part
  reads \<^verbatim>\<open>isProcessing\<close> or \<^verbatim>\<open>job\<close> before it writes.
\<close>

definition startTryOn_begin :: "TryOnRequest \<Rightarrow> hook \<Rightarrow> hook \<times> call list" where
  "startTryOn_begin request s =
     (s\<lparr>isProcessing := True, progress := 0,
         message := ''Initializing try-on process...'', error := None\<rparr>,
      [SubmitTryOn request])"

definition startTryOn_resume :: "ApiResponse outcome \<Rightarrow> hook \<Rightarrow> hook \<times> call list" where
  "startTryOn_resume submitted s =
     (case submitted of
        Rejected err \<Rightarrow> (start_catch err s, [])
      | Resolved response \<Rightarrow>
          if \<not> success response \<or> \<not> truthy (data_jobId response)
          then (start_catch
                  (ErrorObj (or_else (response_error response)
                               ''Failed to submit try-on request'')) s, [])
          else (s, [PollJobStatus (the (data_jobId response))]))"

definition startTryOn ::
    "TryOnRequest \<Rightarrow> ApiResponse outcome \<Rightarrow> hook \<Rightarrow> hook \<times> call list" where
  "startTryOn request submitted s =
     (let (s1, c1) = startTryOn_begin request s;
          (s2, c2) = startTryOn_resume submitted s1
      in (s2, c1 @ c2))"

definition startTryOff_begin :: "TryOffRequest \<Rightarrow> hook \<Rightarrow> hook \<times> call list" where
  "startTryOff_begin request s =
     (s\<lparr>isProcessing := True, progress := 0,
         message := ''Initializing garment extraction...'', error := None\<rparr>,
      [SubmitTryOff request])"

definition startTryOff_resume :: "ApiResponse outcome \<Rightarrow> hook \<Rightarrow> hook \<times> call list" where
  "startTryOff_resume submitted s =
     (case submitted of
        Rejected err \<Rightarrow> (start_catch err s, [])
      | Resolved response \<Rightarrow>
          if \<not> success response \<or> \<not> truthy (data_jobId response)
          then (start_catch
                  (ErrorObj (or_else (response_error response)
                               ''Failed to submit try-off request'')) s, [])
          else (s, [PollJobStatus (the (data_jobId response))]))"

definition startTryOff ::
    "TryOffRequest \<Rightarrow> ApiResponse outcome \<Rightarrow> hook \<Rightarrow> hook \<times> call list" where
  "startTryOff request submitted s =
     (let (s1, c1) = startTryOff_begin request s;
          (s2, c2) = startTryOff_resume submitted s1
      in (s2, c1 @ c2))"

text \<open>
  A submission has failed when the call threw or rejected, when the response is not a
  success, or when it carries no job id: the test the two operations make after their
  \<^verbatim>\<open>await\<close>.
\<close>

definition submit_failed :: "ApiResponse outcome \<Rightarrow> bool" where
  "submit_failed submitted =
     (case submitted of
        Rejected err \<Rightarrow> True
      | Resolved response \<Rightarrow> \<not> success response \<or> \<not> truthy (data_jobId response))"

text \<open>
  The handlers hung on the promise of \<^verbatim>\<open>pollJobStatus\<close>: \<^verbatim>\<open>.then\<close> logs,
  \<^verbatim>\<open>.catch\<close> runs \<^verbatim>\<open>setError(err.message || 'Processing failed');
  setIsProcessing(false)\<close>. The value the promise rejects with is either
  \<^verbatim>\<open>null\<close> or \<^verbatim>\<open>undefined\<close>, and then reading \<^verbatim>\<open>err.message\<close> throws
  inside the handler before either setter has run, or a value whose \<^verbatim>\<open>message\<close>
  is a string or missing.
\<close>

datatype rejection = Nullish | Value "string option"

definition poll_then :: "string \<Rightarrow> hook \<Rightarrow> hook \<times> call list" where
  "poll_then line s = (s, [ConsoleLog line])"

definition poll_catch :: "rejection \<Rightarrow> hook \<Rightarrow> hook \<times> call list" where
  "poll_catch err s =
     (case err of
        Nullish \<Rightarrow> (s, [])
      | Value err_message \<Rightarrow>
          (s\<lparr>error := Some (or_else err_message ''Processing failed''),
              isProcessing := False\<rparr>, []))"

text \<open>
  \<^verbatim>\<open>cancelProcessing\<close>. The guard \<^verbatim>\<open>if (!job?.id) return\<close> leaves when there is
  no job or its id is empty. The setters stand after the \<^verbatim>\<open>await\<close> inside the
  \<^verbatim>\<open>try\<close>, so they run only when \<^verbatim>\<open>apiClient.cancelJob\<close> resolves; when it
  rejects, the \<^verbatim>\<open>catch\<close> block sets the error and nothing else.
\<close>

definition cancelProcessing :: "unit outcome \<Rightarrow> hook \<Rightarrow> hook \<times> call list" where
  "cancelProcessing cancelled s =
     (case job s of
        None \<Rightarrow> (s, [])
      | Some j \<Rightarrow>
          if job_id j = [] then (s, [])
          else (case cancelled of
                  Resolved _ \<Rightarrow>
                    (let (s1, c) = clear_polling
                           (s\<lparr>isProcessing := False, progress := 0, message := [],
                               job := None\<rparr>)
                     in (s1, CancelJob (job_id j) # c))
                | Rejected err \<Rightarrow>
                    (s\<lparr>error := Some (case err of ErrorObj m \<Rightarrow> m
                                          | NonError \<Rightarrow> ''Failed to cancel processing'')\<rparr>,
                     [CancelJob (job_id j)])))"

text \<open>
  A run of snapshots handed to \<^verbatim>\<open>updateJobStatus\<close> one after the other: the states
  the caller observes, in order.
\<close>

fun apply_snapshots :: "hook \<Rightarrow> ProcessingJob list \<Rightarrow> hook list" where
  "apply_snapshots s [] = []"
| "apply_snapshots s (j # js) =
     (let s' = fst (updateJobStatus j s) in s' # apply_snapshots s' js)"

text \<open>
  What can happen to the hook, one event at a time: a caller starts, cancels or resets,
  an awaited submission settles, the poller hands over a snapshot or its promise
  settles. A run is a list of events from some state; it returns the last state and all
  the calls made on the way.
\<close>

datatype event =
    BeginTryOn TryOnRequest
  | ResumeTryOn "ApiResponse outcome"
  | BeginTryOff TryOffRequest
  | ResumeTryOff "ApiResponse outcome"
  | Snapshot ProcessingJob
  | Cancel "unit outcome"
  | Reset
  | PollThen string
  | PollCatch rejection

fun step :: "event \<Rightarrow> hook \<Rightarrow> hook \<times> call list" where
  "step (BeginTryOn request) s = startTryOn_begin request s"
| "step (ResumeTryOn submitted) s = startTryOn_resume submitted s"
| "step (BeginTryOff request) s = startTryOff_begin request s"
| "step (ResumeTryOff submitted) s = startTryOff_resume submitted s"
| "step (Snapshot jobStatus) s = updateJobStatus jobStatus s"
| "step (Cancel cancelled) s = cancelProcessing cancelled s"
| "step Reset s = reset s"
| "step (PollThen line) s = poll_then line s"
| "step (PollCatch err) s = poll_catch err s"

fun run :: "event list \<Rightarrow> hook \<Rightarrow> hook \<times> call list" where
  "run [] s = (s, [])"
| "run (e # es) s =
     (case step e s of
        (s1, c1) \<Rightarrow> (case run es s1 of (s2, c2) \<Rightarrow> (s2, c1 @ c2)))"

section \<open>The simulated progress of the page (app/page.tsx)\<close>

record ProcessingStatus =
  status_isProcessing :: bool
  status_progress :: real
  status_message :: "string option"

text \<open>
  The message cell is optional in the model because \<^verbatim>\<open>messages[i]\<close> is
  \<^verbatim>\<open>undefined\<close> when \<^verbatim>\<open>i\<close> is not an index of the array; \<open>None\<close> is that
  \<^verbatim>\<open>undefined\<close>.
\<close>

definition messages :: "string list" where
  "messages = [''Analyzing image...'', ''Detecting pose...'',
               ''Processing garments...'', ''Generating result...'']"

definition index_js :: "'a list \<Rightarrow> int \<Rightarrow> 'a option" where
  "index_js xs i = (if 0 \<le> i \<and> i < int (length xs) then Some (xs ! nat i) else None)"

text \<open>
  One run of the interval callback. \<open>p\<close> is the local \<^verbatim>\<open>progress\<close> before the tick,
  \<open>u\<close> the value \<^verbatim>\<open>Math.random()\<close> returns. The result is the local
  \<^verbatim>\<open>progress\<close> after the tick, \<^verbatim>\<open>messageIndex\<close>, and the published status.
\<close>

definition tick :: "real \<Rightarrow> real \<Rightarrow> ProcessingStatus \<Rightarrow> real \<times> int \<times> ProcessingStatus" where
  "tick p u prev =
     (let p1 = p + u * 30;
          p2 = (if p1 > 90 then 90 else p1);
          messageIndex = \<lfloor>p2 / 25\<rfloor>
      in (p2, messageIndex,
          prev\<lparr>status_progress := min p2 100,
               status_message :=
                 index_js messages (min messageIndex (int (length messages) - 1))\<rparr>))"

text \<open>
  The interval: a tick for each value drawn, until a tick ends with
  \<^verbatim>\<open>progress >= 90\<close> and clears the interval. The list of draws bounds the run.
\<close>

fun interval_run ::
    "real \<Rightarrow> real list \<Rightarrow> ProcessingStatus \<Rightarrow> (real \<times> int \<times> ProcessingStatus) list" where
  "interval_run p [] prev = []"
| "interval_run p (u # us) prev =
     (case tick p u prev of
        (p2, messageIndex, st) \<Rightarrow>
          (p2, messageIndex, st) # (if p2 \<ge> 90 then [] else interval_run p2 us st))"

definition simulateProgress ::
    "real list \<Rightarrow> ProcessingStatus \<Rightarrow> (real \<times> int \<times> ProcessingStatus) list" where
  "simulateProgress us prev = interval_run 0 us prev"

section \<open>The upload component (components/ImageUpload.tsx)\<close>

record ImageUpload =
  dragActive :: bool
  uploadedImage :: "string option"

datatype upload_call = ReadAsDataURL File | OnImageUpload File

text \<open>
  \<^verbatim>\<open>handleFile\<close> together with the \<^verbatim>\<open>onloadend\<close> handler it installs:
  \<open>loaded\<close> is \<^verbatim>\<open>reader.result\<close> when the reader is done. Without the reader there
  is no handler to run.
\<close>

definition handleFile :: "File \<Rightarrow> string option \<Rightarrow> ImageUpload \<Rightarrow> ImageUpload \<times> upload_call list" where
  "handleFile file loaded s =
     (if prefix ''image/'' (file_type file)
      then (s\<lparr>uploadedImage := loaded\<rparr>, [ReadAsDataURL file, OnImageUpload file])
      else (s, []))"

section \<open>The upload hook (hooks/useImageUpload.ts)\<close>

record useImageUpload =
  image_file :: "File option"
  preview :: "string option"
  isUploading :: bool
  upload_error :: "string option"

record validation =
  isValid :: bool
  validation_error :: "string option"

text \<open>
  \<^verbatim>\<open>uploadImage\<close>. \<^verbatim>\<open>validateImageFile\<close> and \<^verbatim>\<open>createImagePreview\<close> live in
  \<^verbatim>\<open>lib/utils\<close>, outside the sources at hand: what they return or throw is given.
  The last update is the \<^verbatim>\<open>finally\<close> block.
\<close>

definition uploadImage ::
    "File \<Rightarrow> validation outcome \<Rightarrow> string outcome \<Rightarrow> useImageUpload \<Rightarrow> useImageUpload" where
  "uploadImage file validated previewed s =
     (let s1 = s\<lparr>upload_error := None, isUploading := True\<rparr>;
          caught = (\<lambda>err. s1\<lparr>upload_error :=
                      Some (case err of ErrorObj m \<Rightarrow> m | NonError \<Rightarrow> ''Upload failed'')\<rparr>);
          s2 = (case validated of
                  Rejected err \<Rightarrow> caught err
                | Resolved v \<Rightarrow>
                    if \<not> isValid v
                    then s1\<lparr>upload_error :=
                             Some (or_else (validation_error v) ''Invalid file'')\<rparr>
                    else (case previewed of
                            Rejected err \<Rightarrow> caught err
                          | Resolved previewUrl \<Rightarrow>
                              s1\<lparr>image_file := Some file, preview := Some previewUrl\<rparr>))
      in s2\<lparr>isUploading := False\<rparr>)"

section \<open>Sample runs\<close>

text \<open>
  A try-on request, the response that accepts it as job \<open>J1\<close>, and a first snapshot of
  that job at 40 percent. \<open>submitting_1\<close> is the hook while the submission is under
  way, \<open>pending_J1\<close> right after the submission was accepted, \<open>active_J1\<close> after the
  first snapshot, \<open>completed_J1\<close> after the snapshot that completes the job,
  \<open>cancelled_J1\<close> after a cancellation of the active job that the backend confirmed.
  \<open>refused\<close> is a response that reports an error, \<open>starting_status\<close> the status the
  page publishes before it calls \<^verbatim>\<open>simulateProgress\<close>.
\<close>

definition png :: "string \<Rightarrow> File" where
  "png n = \<lparr>file_name = n, file_type = ''image/png''\<rparr>"

definition request_1 :: TryOnRequest where
  "request_1 = \<lparr>on_modelImage = png ''model.png'', garmentImage = png ''garment.png''\<rparr>"

definition request_2 :: TryOffRequest where
  "request_2 = \<lparr>off_modelImage = png ''model.png''\<rparr>"

definition accepted :: "string \<Rightarrow> ApiResponse" where
  "accepted j = \<lparr>success = True, data_jobId = Some j, response_error = None,
     response_jobId = None\<rparr>"

definition refused :: "string \<Rightarrow> ApiResponse" where
  "refused e = \<lparr>success = False, data_jobId = None, response_error = Some e,
     response_jobId = None\<rparr>"

definition snapshot :: "string \<Rightarrow> string \<Rightarrow> real \<Rightarrow> ProcessingJob" where
  "snapshot j st p =
     \<lparr>job_id = j, job_status = st, job_progress = p, job_message = ''Processing garments...'',
      createdAt = 0, completedAt = None, result = None\<rparr>"

definition submitting_1 :: hook where
  "submitting_1 = fst (startTryOn_begin request_1 initial)"

definition pending_J1 :: hook where
  "pending_J1 = fst (startTryOn request_1 (Resolved (accepted ''J1'')) initial)"

definition active_J1 :: hook where
  "active_J1 = fst (updateJobStatus (snapshot ''J1'' ''processing'' 40) pending_J1)"

definition completed_J1 :: hook where
  "completed_J1 = fst (updateJobStatus (snapshot ''J1'' ''completed'' 100) active_J1)"

definition cancelled_J1 :: hook where
  "cancelled_J1 = fst (cancelProcessing (Resolved ()) active_J1)"

definition starting_status :: ProcessingStatus where
  "starting_status = \<lparr>status_isProcessing = True, status_progress = 0,
     status_message = Some ''Starting processing...''\<rparr>"

section \<open>Properties\<close>

subsection \<open>The sample states\<close>

lemma submitting_1_eq:
  "submitting_1 = \<lparr>isProcessing = True, progress = 0,
     message = ''Initializing try-on process...'', job = None, error = None,
     pollingRef = None\<rparr>"
  by (simp add: submitting_1_def startTryOn_begin_def initial_def)

lemma pending_J1_eq:
  "pending_J1 = \<lparr>isProcessing = True, progress = 0,
     message = ''Initializing try-on process...'', job = None, error = None,
     pollingRef = None\<rparr>"
  by (simp add: pending_J1_def startTryOn_def startTryOn_begin_def startTryOn_resume_def
      accepted_def initial_def)

lemma active_J1_eq:
  "active_J1 = \<lparr>isProcessing = True, progress = 40,
     message = ''Processing garments...'',
     job = Some (snapshot ''J1'' ''processing'' 40), error = None, pollingRef = None\<rparr>"
  by (simp add: active_J1_def pending_J1_eq updateJobStatus_def snapshot_def)

lemma completed_J1_eq:
  "completed_J1 = \<lparr>isProcessing = False, progress = 100,
     message = ''Processing garments...'',
     job = Some (snapshot ''J1'' ''completed'' 100), error = None, pollingRef = None\<rparr>"
  by (simp add: completed_J1_def active_J1_eq updateJobStatus_def clear_polling_def
      snapshot_def)

lemma cancelled_J1_eq: "cancelled_J1 = initial"
  by (simp add: cancelled_J1_def active_J1_eq cancelProcessing_def clear_polling_def
      snapshot_def initial_def)

subsection \<open>The timer cell\<close>

lemma clear_polling_fields:
  "isProcessing (fst (clear_polling s)) = isProcessing s"
  "progress (fst (clear_polling s)) = progress s"
  "message (fst (clear_polling s)) = message s"
  "job (fst (clear_polling s)) = job s"
  "error (fst (clear_polling s)) = error s"
  "pollingRef (fst (clear_polling s)) = None"
  by (simp_all add: clear_polling_def split: option.splits)

lemma clear_polling_calls:
  "snd (clear_polling s) = (case pollingRef s of None \<Rightarrow> [] | Some h \<Rightarrow> [ClearInterval h])"
  by (simp add: clear_polling_def split: option.splits)

subsection \<open>Starting while a job is in progress\<close>

lemma startTryOn_resume_quiet:
  "job (fst (startTryOn_resume submitted s)) = job s"
  "progress (fst (startTryOn_resume submitted s)) = progress s"
  "message (fst (startTryOn_resume submitted s)) = message s"
  "pollingRef (fst (startTryOn_resume submitted s)) = pollingRef s"
  by (simp_all add: startTryOn_resume_def start_catch_def split: outcome.splits)

lemma startTryOff_resume_quiet:
  "job (fst (startTryOff_resume submitted s)) = job s"
  "progress (fst (startTryOff_resume submitted s)) = progress s"
  "message (fst (startTryOff_resume submitted s)) = message s"
  "pollingRef (fst (startTryOff_resume submitted s)) = pollingRef s"
  by (simp_all add: startTryOff_resume_def start_catch_def split: outcome.splits)

lemma startTryOn_split:
  "startTryOn request submitted s =
     (fst (startTryOn_resume submitted (fst (startTryOn_begin request s))),
      SubmitTryOn request # snd (startTryOn_resume submitted (fst (startTryOn_begin request s))))"
  by (simp add: startTryOn_def startTryOn_begin_def split: prod.splits)

lemma startTryOff_split:
  "startTryOff request submitted s =
     (fst (startTryOff_resume submitted (fst (startTryOff_begin request s))),
      SubmitTryOff request # snd (startTryOff_resume submitted (fst (startTryOff_begin request s))))"
  by (simp add: startTryOff_def startTryOff_begin_def split: prod.splits)

text \<open>
  Claim C1, as stated: a call of \<^verbatim>\<open>startTryOn\<close> or \<^verbatim>\<open>startTryOff\<close> while
  \<^verbatim>\<open>isProcessing\<close> is true is rejected and leaves job, progress and message alone.
  It fails on the hook, which has no such check. With job \<open>J1\<close> active at 40 percent, a
  second \<^verbatim>\<open>startTryOn\<close> puts the progress back to 0, replaces the message, submits
  the request and starts polling the new job \<open>J2\<close>.
\<close>

theorem startTryOn_busy_counterexample:
  "isProcessing active_J1 \<and>
   progress active_J1 = 40 \<and>
   progress (fst (startTryOn request_1 (Resolved (accepted ''J2'')) active_J1)) = 0 \<and>
   message (fst (startTryOn request_1 (Resolved (accepted ''J2'')) active_J1))
     \<noteq> message active_J1 \<and>
   snd (startTryOn request_1 (Resolved (accepted ''J2'')) active_J1)
     = [SubmitTryOn request_1, PollJobStatus ''J2'']"
  by (simp add: active_J1_eq startTryOn_def startTryOn_begin_def startTryOn_resume_def
      accepted_def)

text \<open>
  Claim C1, amended: \<^verbatim>\<open>startTryOn\<close> and \<^verbatim>\<open>startTryOff\<close> do not look at
  \<^verbatim>\<open>isProcessing\<close>. Called while it is true, they submit the request all the same,
  set the progress to 0, replace the message by their initialising text and clear the
  error; of the observable state of the job in progress only the \<^verbatim>\<open>job\<close> cell is left
  as it was.
\<close>

theorem start_while_busy_accepted:
  assumes "isProcessing s"
  shows "startTryOn_begin request s =
           (s\<lparr>progress := 0, message := ''Initializing try-on process...'', error := None\<rparr>,
            [SubmitTryOn request]) \<and>
         startTryOff_begin request' s =
           (s\<lparr>progress := 0, message := ''Initializing garment extraction...'',
               error := None\<rparr>,
            [SubmitTryOff request']) \<and>
         job (fst (startTryOn request submitted s)) = job s \<and>
         progress (fst (startTryOn request submitted s)) = 0 \<and>
         message (fst (startTryOn request submitted s)) = ''Initializing try-on process...'' \<and>
         hd (snd (startTryOn request submitted s)) = SubmitTryOn request \<and>
         job (fst (startTryOff request' submitted s)) = job s \<and>
         progress (fst (startTryOff request' submitted s)) = 0 \<and>
         message (fst (startTryOff request' submitted s))
           = ''Initializing garment extraction...'' \<and>
         hd (snd (startTryOff request' submitted s)) = SubmitTryOff request'"
proof -
  have "startTryOn_begin request s =
          (s\<lparr>progress := 0, message := ''Initializing try-on process...'', error := None\<rparr>,
           [SubmitTryOn request])"
    using assms by (simp add: startTryOn_begin_def)
  moreover have "startTryOff_begin request' s =
          (s\<lparr>progress := 0, message := ''Initializing garment extraction...'',
              error := None\<rparr>,
           [SubmitTryOff request'])"
    using assms by (simp add: startTryOff_begin_def)
  ultimately show ?thesis
    by (simp add: startTryOn_split startTryOff_split startTryOn_resume_quiet
        startTryOff_resume_quiet)
qed

theorem start_while_busy_accepted_witness:
  "isProcessing active_J1 \<and>
   startTryOn request_1 (Resolved (accepted ''J2'')) active_J1 =
     (active_J1\<lparr>progress := 0, message := ''Initializing try-on process...''\<rparr>,
      [SubmitTryOn request_1, PollJobStatus ''J2'']) \<and>
   job (fst (startTryOn request_1 (Resolved (accepted ''J2'')) active_J1)) = job active_J1"
  using start_while_busy_accepted [where s = active_J1 and request = request_1
      and request' = request_2 and submitted = "Resolved (accepted ''J2'')"]
  by (simp add: active_J1_eq startTryOn_def startTryOn_begin_def startTryOn_resume_def
      accepted_def)

subsection \<open>Snapshots\<close>

lemma updateJobStatus_terminal:
  "job_status j = ''completed'' \<or> job_status j = ''failed'' \<Longrightarrow>
   updateJobStatus j s =
     clear_polling (s\<lparr>job := Some j, progress := job_progress j, message := job_message j,
                       isProcessing := False\<rparr>)"
  by (simp add: updateJobStatus_def)

lemma updateJobStatus_running:
  "job_status j \<noteq> ''completed'' \<Longrightarrow> job_status j \<noteq> ''failed'' \<Longrightarrow>
   updateJobStatus j s =
     (s\<lparr>job := Some j, progress := job_progress j, message := job_message j\<rparr>, [])"
  by (simp add: updateJobStatus_def)

text \<open>
  Claim C2, as stated: a snapshot that arrives after polling has stopped changes nothing.
  It fails on the hook: \<^verbatim>\<open>updateJobStatus\<close> has no test for a stale snapshot. After
  job \<open>J1\<close> has been cancelled, a late snapshot of it at 50 percent is stored as the job
  again, with its progress and message.
\<close>

theorem late_snapshot_counterexample:
  "isProcessing cancelled_J1 = False \<and>
   job cancelled_J1 = None \<and>
   progress cancelled_J1 = 0 \<and>
   job (fst (updateJobStatus (snapshot ''J1'' ''processing'' 50) cancelled_J1))
     = Some (snapshot ''J1'' ''processing'' 50) \<and>
   progress (fst (updateJobStatus (snapshot ''J1'' ''processing'' 50) cancelled_J1)) = 50 \<and>
   message (fst (updateJobStatus (snapshot ''J1'' ''processing'' 50) cancelled_J1))
     \<noteq> message cancelled_J1"
  by (simp add: cancelled_J1_eq initial_def updateJobStatus_def snapshot_def)

text \<open>
  Claim C2, amended: a snapshot applied after polling has stopped (the hook is not
  processing and holds no timer handle) replaces job, progress and message by its own
  values, whatever its status; \<^verbatim>\<open>isProcessing\<close> stays false, the error and the
  empty timer cell keep their values, and nothing is called.
\<close>

theorem late_snapshot_overwrites:
  assumes "\<not> isProcessing s" and "pollingRef s = None"
  shows "updateJobStatus j s =
           (s\<lparr>job := Some j, progress := job_progress j, message := job_message j\<rparr>, [])"
  using assms by (cases s) (simp add: updateJobStatus_def clear_polling_def Let_def)

theorem late_snapshot_overwrites_witness:
  "\<not> isProcessing cancelled_J1 \<and> pollingRef cancelled_J1 = None \<and>
   updateJobStatus (snapshot ''J1'' ''completed'' 100) cancelled_J1 =
     (cancelled_J1\<lparr>job := Some (snapshot ''J1'' ''completed'' 100), progress := 100,
                    message := ''Processing garments...''\<rparr>, [])"
  using late_snapshot_overwrites [where s = cancelled_J1
      and j = "snapshot ''J1'' ''completed'' 100"]
  by (simp add: cancelled_J1_eq initial_def snapshot_def)

subsection \<open>Cancelling\<close>

text \<open>
  Claim C3, as stated: a cancel request during \<open>Submitting\<close> or \<open>Active\<close> forces
  the local state to the cancelled shape whether or not the network call succeeds. It
  fails twice. When \<^verbatim>\<open>apiClient.cancelJob\<close> rejects, job \<open>J1\<close> stays active and
  only the error is set; and while the submission has not produced a snapshot yet, the
  \<^verbatim>\<open>job\<close> cell is empty and \<^verbatim>\<open>cancelProcessing\<close> returns at its guard.
\<close>

theorem cancel_counterexample:
  "isProcessing active_J1 \<and>
   isProcessing (fst (cancelProcessing (Rejected (ErrorObj ''Network Error'')) active_J1)) \<and>
   job (fst (cancelProcessing (Rejected (ErrorObj ''Network Error'')) active_J1))
     = job active_J1 \<and>
   job active_J1 \<noteq> None \<and>
   isProcessing submitting_1 \<and>
   cancelProcessing (Resolved ()) submitting_1 = (submitting_1, [])"
  by (simp add: active_J1_eq submitting_1_eq cancelProcessing_def snapshot_def)

text \<open>
  Claim C3, amended: \<^verbatim>\<open>cancelProcessing\<close> does nothing when the hook holds no job
  snapshot, or one with an empty id. Otherwise it calls \<^verbatim>\<open>apiClient.cancelJob\<close>.
  When that call resolves, the local state is forced to the idle shape: not processing,
  progress 0, empty message, no job, timer cell empty with a held handle cleared. When it
  rejects, the error is set and the rest of the state is left as it was.
\<close>

theorem cancel_cases:
  "(case job s of
      None \<Rightarrow> cancelProcessing cancelled s = (s, [])
    | Some j \<Rightarrow>
        if job_id j = [] then cancelProcessing cancelled s = (s, [])
        else cancelProcessing (Resolved ()) s =
               (s\<lparr>isProcessing := False, progress := 0, message := [], job := None,
                   pollingRef := None\<rparr>,
                CancelJob (job_id j) #
                  (case pollingRef s of None \<Rightarrow> [] | Some h \<Rightarrow> [ClearInterval h])) \<and>
             cancelProcessing (Rejected err) s =
               (s\<lparr>error := Some (case err of ErrorObj m \<Rightarrow> m
                                     | NonError \<Rightarrow> ''Failed to cancel processing'')\<rparr>,
                [CancelJob (job_id j)]))"
  by (cases s) (simp add: cancelProcessing_def clear_polling_def split: option.splits)

theorem cancel_cases_witness:
  "cancelProcessing (Resolved ()) active_J1 = (initial, [CancelJob ''J1'']) \<and>
   cancelProcessing (Rejected NonError) active_J1 =
     (active_J1\<lparr>error := Some ''Failed to cancel processing''\<rparr>, [CancelJob ''J1'']) \<and>
   cancelProcessing (Resolved ()) pending_J1 = (pending_J1, [])"
  using cancel_cases [where s = active_J1 and cancelled = "Resolved ()" and err = NonError]
    cancel_cases [where s = pending_J1 and cancelled = "Resolved ()" and err = NonError]
  by (simp add: active_J1_eq pending_J1_eq snapshot_def initial_def)

subsection \<open>Terminal snapshots\<close>

text \<open>
  Claim C4, as stated: a snapshot with status \<open>completed\<close>, \<open>failed\<close> or
  \<open>cancelled\<close> stops the polling, clearing the timer handle exactly once, and settles
  the processing. It fails on the hook: the declared status type has no \<open>cancelled\<close>,
  the hook tests for \<open>completed\<close> and \<open>failed\<close> only, and a snapshot that says
  \<open>cancelled\<close> leaves \<^verbatim>\<open>isProcessing\<close> true and the handle in place. And where
  no handle is held, a \<open>completed\<close> snapshot calls \<^verbatim>\<open>clearInterval\<close> not once but
  never.
\<close>

theorem terminal_snapshot_counterexample:
  "\<not> declared_status ''cancelled'' \<and>
   updateJobStatus (snapshot ''J1'' ''cancelled'' 40) (active_J1\<lparr>pollingRef := Some 7\<rparr>) =
     (active_J1\<lparr>pollingRef := Some 7, job := Some (snapshot ''J1'' ''cancelled'' 40)\<rparr>, []) \<and>
   isProcessing active_J1 \<and>
   snd (updateJobStatus (snapshot ''J1'' ''completed'' 100) active_J1) = []"
  by (simp add: active_J1_eq updateJobStatus_def clear_polling_def snapshot_def
      declared_status_def)

text \<open>
  Claim C4, amended: a snapshot with status \<open>completed\<close> or \<open>failed\<close> sets
  \<^verbatim>\<open>isProcessing\<close> to false and empties the timer cell, with one call of
  \<^verbatim>\<open>clearInterval\<close> when a handle was held and none otherwise. A snapshot with any
  other status, \<open>pending\<close> and \<open>processing\<close> among them, leaves
  \<^verbatim>\<open>isProcessing\<close> and the timer cell as they were and calls nothing.
\<close>

theorem terminal_snapshot_settles:
  "(job_status j = ''completed'' \<or> job_status j = ''failed'' \<longrightarrow>
      isProcessing (fst (updateJobStatus j s)) = False \<and>
      pollingRef (fst (updateJobStatus j s)) = None \<and>
      snd (updateJobStatus j s) =
        (case pollingRef s of None \<Rightarrow> [] | Some h \<Rightarrow> [ClearInterval h])) \<and>
   (job_status j \<noteq> ''completed'' \<and> job_status j \<noteq> ''failed'' \<longrightarrow>
      isProcessing (fst (updateJobStatus j s)) = isProcessing s \<and>
      pollingRef (fst (updateJobStatus j s)) = pollingRef s \<and>
      snd (updateJobStatus j s) = [])"
  by (simp add: updateJobStatus_terminal updateJobStatus_running clear_polling_fields
      clear_polling_calls)

theorem terminal_snapshot_settles_witness:
  "updateJobStatus (snapshot ''J1'' ''completed'' 100) (active_J1\<lparr>pollingRef := Some 7\<rparr>) =
     (active_J1\<lparr>isProcessing := False, progress := 100,
                 job := Some (snapshot ''J1'' ''completed'' 100)\<rparr>, [ClearInterval 7]) \<and>
   isProcessing (fst (updateJobStatus (snapshot ''J1'' ''failed'' 40) active_J1)) = False \<and>
   isProcessing (fst (updateJobStatus (snapshot ''J1'' ''pending'' 0) active_J1)) = True \<and>
   snd (updateJobStatus (snapshot ''J1'' ''processing'' 60)
         (active_J1\<lparr>pollingRef := Some 7\<rparr>)) = []"
  using terminal_snapshot_settles [where j = "snapshot ''J1'' ''completed'' 100"
      and s = "active_J1\<lparr>pollingRef := Some 7\<rparr>"]
    terminal_snapshot_settles [where j = "snapshot ''J1'' ''failed'' 40" and s = active_J1]
    terminal_snapshot_settles [where j = "snapshot ''J1'' ''pending'' 0" and s = active_J1]
    terminal_snapshot_settles [where j = "snapshot ''J1'' ''processing'' 60"
      and s = "active_J1\<lparr>pollingRef := Some 7\<rparr>"]
  by (simp add: active_J1_eq snapshot_def updateJobStatus_def clear_polling_def)

subsection \<open>Reset\<close>

lemma reset_fields:
  "fst (reset s) = initial"
  "snd (reset s) = (case pollingRef s of None \<Rightarrow> [] | Some h \<Rightarrow> [ClearInterval h])"
  by (cases s, simp add: reset_def clear_polling_def initial_def split: option.splits)+

lemma step_fills_no_handle:
  "pollingRef s = None \<Longrightarrow> pollingRef (fst (step e s)) = None"
  by (cases e)
    (simp_all add: startTryOn_begin_def startTryOn_resume_def startTryOff_begin_def
      startTryOff_resume_def start_catch_def updateJobStatus_def Let_def clear_polling_def
      cancelProcessing_def reset_def poll_then_def poll_catch_def
      split: outcome.splits option.splits rejection.splits)

lemma run_Cons_fst: "fst (run (e # es) s) = fst (run es (fst (step e s)))"
  by (cases "step e s", cases "run es (fst (step e s))") simp

lemma run_fills_no_handle:
  "pollingRef s = None \<Longrightarrow> pollingRef (fst (run es s)) = None"
proof (induction es arbitrary: s)
  case Nil
  then show ?case by simp
next
  case (Cons e es)
  from Cons.prems have "pollingRef (fst (step e s)) = None"
    by (rule step_fills_no_handle)
  then have "pollingRef (fst (run es (fst (step e s)))) = None"
    by (rule Cons.IH)
  then show ?case
    by (simp only: run_Cons_fst)
qed

lemma reset_calls_nothing_on_runs: "snd (reset (fst (run es initial))) = []"
proof -
  have "pollingRef (fst (run es initial)) = None"
    by (rule run_fills_no_handle) (simp add: initial_def)
  then show ?thesis
    by (simp add: reset_fields)
qed

text \<open>
  Claim C5: \<^verbatim>\<open>reset()\<close> from any state gives the idle state and leaves no active
  polling timer. The cells do get their idle values, but the timer is out of the reach
  of \<^verbatim>\<open>reset\<close>: the hook starts the poller with \<^verbatim>\<open>pollJobStatus\<close> and never
  stores a handle in \<^verbatim>\<open>pollingRef\<close>, so its \<^verbatim>\<open>clearInterval\<close> block finds the
  cell empty. With job \<open>J1\<close> accepted and active at 40 percent, the cell is empty,
  \<^verbatim>\<open>reset\<close> makes no call at all, and the next snapshot the poller hands over, at 60
  percent, puts the job and its progress back into the state that was reset.
\<close>

theorem reset_leaves_poller:
  "snd (startTryOn request_1 (Resolved (accepted ''J1'')) initial)
     = [SubmitTryOn request_1, PollJobStatus ''J1''] \<and>
   pollingRef active_J1 = None \<and>
   reset active_J1 = (initial, []) \<and>
   fst (updateJobStatus (snapshot ''J1'' ''processing'' 60) (fst (reset active_J1)))
     = initial\<lparr>job := Some (snapshot ''J1'' ''processing'' 60), progress := 60,
                message := ''Processing garments...''\<rparr> \<and>
   fst (updateJobStatus (snapshot ''J1'' ''processing'' 60) (fst (reset active_J1)))
     \<noteq> initial"
  by (simp add: active_J1_eq startTryOn_def startTryOn_begin_def startTryOn_resume_def
      accepted_def reset_def clear_polling_def updateJobStatus_def snapshot_def initial_def)

subsection \<open>Failed submissions\<close>

lemma start_catch_fields:
  "error (start_catch err s) \<noteq> None"
  "isProcessing (start_catch err s) = False"
  "job (start_catch err s) = job s"
  by (simp_all add: start_catch_def)

text \<open>
  Claim C6, as stated: after every failed submission the hook is idle with the error
  attached and no job is retained. The last part fails on the hook: neither
  \<^verbatim>\<open>startTryOn\<close> nor \<^verbatim>\<open>startTryOff\<close> ever writes the \<^verbatim>\<open>job\<close> cell. After
  job \<open>J1\<close> has completed, a new submission that the backend refuses leaves the
  completed \<open>J1\<close> in the cell.
\<close>

theorem submit_failure_keeps_job_counterexample:
  "submit_failed (Resolved (refused ''Invalid image'')) \<and>
   isProcessing completed_J1 = False \<and>
   startTryOn request_1 (Resolved (refused ''Invalid image'')) completed_J1 =
     (completed_J1\<lparr>progress := 0, message := ''Initializing try-on process...'',
                    error := Some ''Invalid image''\<rparr>, [SubmitTryOn request_1]) \<and>
   job (fst (startTryOn request_1 (Resolved (refused ''Invalid image'')) completed_J1))
     = Some (snapshot ''J1'' ''completed'' 100) \<and>
   job (fst (startTryOff request_2 (Rejected NonError) completed_J1))
     = Some (snapshot ''J1'' ''completed'' 100)"
  by (simp add: completed_J1_eq submit_failed_def refused_def startTryOn_def
      startTryOn_begin_def startTryOn_resume_def startTryOff_def startTryOff_begin_def
      startTryOff_resume_def start_catch_def)

text \<open>
  Claim C6, amended: when the submission fails (the call throws, the response is not a
  success, or it has no job id), the hook ends with an error message set and
  \<^verbatim>\<open>isProcessing\<close> false, and the submission is the only call made, so no polling
  is started. The \<^verbatim>\<open>job\<close> cell is left as it was: empty when it was empty, and
  still holding the snapshot of an earlier job when there was one. The same for
  \<^verbatim>\<open>startTryOff\<close>.
\<close>

theorem submit_failure_surfaces_error:
  assumes "submit_failed submitted"
  shows "error (fst (startTryOn request submitted s)) \<noteq> None \<and>
         isProcessing (fst (startTryOn request submitted s)) = False \<and>
         job (fst (startTryOn request submitted s)) = job s \<and>
         snd (startTryOn request submitted s) = [SubmitTryOn request] \<and>
         error (fst (startTryOff request' submitted s)) \<noteq> None \<and>
         isProcessing (fst (startTryOff request' submitted s)) = False \<and>
         job (fst (startTryOff request' submitted s)) = job s \<and>
         snd (startTryOff request' submitted s) = [SubmitTryOff request']"
proof (cases submitted)
  case (Rejected err)
  then show ?thesis
    by (simp add: startTryOn_split startTryOff_split startTryOn_resume_def
        startTryOff_resume_def start_catch_fields)
      (simp add: startTryOn_begin_def startTryOff_begin_def)
next
  case (Resolved response)
  with assms have "\<not> success response \<or> \<not> truthy (data_jobId response)"
    by (simp add: submit_failed_def)
  with Resolved show ?thesis
    by (simp add: startTryOn_split startTryOff_split startTryOn_resume_def
        startTryOff_resume_def start_catch_fields)
      (simp add: startTryOn_begin_def startTryOff_begin_def)
qed

theorem submit_failure_surfaces_error_witness:
  "submit_failed (Resolved (refused ''Invalid image'')) \<and>
   startTryOn request_1 (Resolved (refused ''Invalid image'')) initial =
     (initial\<lparr>message := ''Initializing try-on process...'',
              error := Some ''Invalid image''\<rparr>, [SubmitTryOn request_1]) \<and>
   submit_failed (Resolved (accepted [])) \<and>
   startTryOff request_2 (Resolved (accepted [])) initial =
     (initial\<lparr>message := ''Initializing garment extraction...'',
              error := Some ''Failed to submit try-off request''\<rparr>,
      [SubmitTryOff request_2]) \<and>
   submit_failed (Rejected NonError) \<and>
   error (fst (startTryOn request_1 (Rejected NonError) initial))
     = Some ''Failed to start processing'' \<and>
   startTryOff request_2 (Rejected (ErrorObj ''Network Error'')) active_J1 =
     (active_J1\<lparr>isProcessing := False, progress := 0,
                 message := ''Initializing garment extraction...'',
                 error := Some ''Network Error''\<rparr>, [SubmitTryOff request_2]) \<and>
   job (fst (startTryOff request_2 (Rejected (ErrorObj ''Network Error'')) active_J1))
     = job active_J1"
  using submit_failure_surfaces_error [where submitted = "Resolved (refused ''Invalid image'')"
       and request = request_1 and s = initial and request' = request_2]
    submit_failure_surfaces_error [where submitted = "Rejected (ErrorObj ''Network Error'')"
       and request = request_1 and s = active_J1 and request' = request_2]
  by (simp add: submit_failed_def startTryOn_def startTryOn_begin_def startTryOn_resume_def
      startTryOff_def startTryOff_begin_def startTryOff_resume_def start_catch_def
      initial_def refused_def accepted_def active_J1_eq)

subsection \<open>Progress across snapshots\<close>

lemma updateJobStatus_progress: "progress (fst (updateJobStatus j s)) = job_progress j"
  by (simp add: updateJobStatus_def Let_def clear_polling_fields)

lemma apply_snapshots_progress:
  "map progress (apply_snapshots s js) = map job_progress js"
  by (induction js arbitrary: s) (simp_all add: Let_def updateJobStatus_progress)

lemma tick_fst: "fst (tick p u prev) = (if p + u * 30 > 90 then 90 else p + u * 30)"
  by (simp add: tick_def Let_def)

lemma tick_index: "fst (snd (tick p u prev)) = \<lfloor>fst (tick p u prev) / 25\<rfloor>"
  by (simp add: tick_def Let_def)

lemma tick_published:
  "status_progress (snd (snd (tick p u prev))) = min (fst (tick p u prev)) 100"
  "status_message (snd (snd (tick p u prev))) =
     index_js messages (min (fst (snd (tick p u prev))) (int (length messages) - 1))"
  "status_isProcessing (snd (snd (tick p u prev))) = status_isProcessing prev"
  by (simp_all add: tick_def Let_def)

lemma tick_bounds:
  assumes "0 \<le> p" "p \<le> 90" "0 \<le> u"
  shows "p \<le> fst (tick p u prev)" "fst (tick p u prev) \<le> 90"
  using assms by (simp_all add: tick_fst)

lemma floor_quarter: 
  assumes "0 \<le> q" "q \<le> 90"
  shows "0 \<le> \<lfloor>q / 25\<rfloor>" "\<lfloor>q / 25\<rfloor> \<le> 3"
proof -
  show "0 \<le> \<lfloor>q / 25\<rfloor>" using assms by simp
  have "q / 25 < 4" using assms by simp
  then have "\<lfloor>q / 25\<rfloor> < 4" by (simp add: floor_less_iff)
  then show "\<lfloor>q / 25\<rfloor> \<le> 3" by simp
qed

lemma index_js_messages:
  "0 \<le> i \<Longrightarrow> i \<le> 3 \<Longrightarrow> index_js messages i = Some (messages ! nat i)"
  by (simp add: index_js_def messages_def)

lemma interval_run_Cons:
  "interval_run p (u # us) prev =
     tick p u prev #
       (if fst (tick p u prev) \<ge> 90 then []
        else interval_run (fst (tick p u prev)) us (snd (snd (tick p u prev))))"
  by (simp split: prod.splits)

lemma interval_run_bounds:
  assumes "0 \<le> p" "p \<le> 90" "\<forall>u\<in>set us. 0 \<le> u"
  shows "\<forall>x\<in>set (interval_run p us prev). p \<le> fst x \<and> fst x \<le> 90"
  using assms
proof (induction us arbitrary: p prev)
  case Nil
  then show ?case by simp
next
  case (Cons u us)
  let ?q = "fst (tick p u prev)"
  from Cons.prems have q: "p \<le> ?q" "?q \<le> 90" by (simp_all add: tick_bounds)
  with Cons.prems have "0 \<le> ?q" by simp
  with Cons.IH [of ?q "snd (snd (tick p u prev))"] q Cons.prems
  have "\<forall>x\<in>set (interval_run ?q us (snd (snd (tick p u prev)))). ?q \<le> fst x \<and> fst x \<le> 90"
    by simp
  with q show ?case
    unfolding interval_run_Cons by auto
qed

lemma interval_run_sorted:
  assumes "0 \<le> p" "p \<le> 90" "\<forall>u\<in>set us. 0 \<le> u"
  shows "sorted (map fst (interval_run p us prev))"
  using assms
proof (induction us arbitrary: p prev)
  case Nil
  then show ?case by simp
next
  case (Cons u us)
  let ?q = "fst (tick p u prev)"
  let ?st = "snd (snd (tick p u prev))"
  from Cons.prems have q: "p \<le> ?q" "?q \<le> 90" by (simp_all add: tick_bounds)
  with Cons.prems have q0: "0 \<le> ?q" by simp
  from Cons.prems have us: "\<forall>u\<in>set us. 0 \<le> u" by simp
  have "sorted (map fst (interval_run ?q us ?st))"
    using Cons.IH [OF q0 q(2) us] .
  moreover have "\<forall>x\<in>set (interval_run ?q us ?st). ?q \<le> fst x"
    using interval_run_bounds [OF q0 q(2) us] by blast
  ultimately show ?case
    unfolding interval_run_Cons by auto
qed

lemma interval_run_ticks:
  "\<forall>x\<in>set (interval_run p us prev). \<exists>p' u' prev'. x = tick p' u' prev'"
proof (induction us arbitrary: p prev)
  case Nil
  then show ?case by simp
next
  case (Cons u us)
  show ?case
    unfolding interval_run_Cons using Cons.IH by auto
qed

lemma interval_run_published:
  assumes "0 \<le> p" "p \<le> 90" "\<forall>u\<in>set us. 0 \<le> u" "x \<in> set (interval_run p us prev)"
  shows "status_progress (snd (snd x)) = fst x"
proof -
  from assms(4) interval_run_ticks obtain p' u' prev' where x: "x = tick p' u' prev'"
    by blast
  from assms(4) interval_run_bounds [OF assms(1-3)] have "fst x \<le> 90" by blast
  with x show ?thesis by (simp add: tick_published)
qed

text \<open>
  Claim C7, as stated: over any sequence of snapshots of one job the observable progress
  never decreases before a terminal state and stays within 0 to 100. It fails on the hook,
  which stores whatever progress a snapshot carries: three \<open>processing\<close> snapshots at
  40, 30 and 150 show as 40, then 30, then 150.
\<close>

theorem progress_counterexample:
  "job_status (snapshot ''J1'' ''processing'' 30) = ''processing'' \<and>
   map progress (apply_snapshots pending_J1
     [snapshot ''J1'' ''processing'' 40, snapshot ''J1'' ''processing'' 30,
      snapshot ''J1'' ''processing'' 150]) = [40, 30, 150]"
  by (simp add: updateJobStatus_def snapshot_def)

text \<open>
  Claim C7, amended: after each snapshot the observable progress is that snapshot's
  progress, neither ordered nor clamped by the hook, so the observed sequence is
  non-decreasing and within 0 to 100 exactly when the sequence delivered is. The progress
  that \<^verbatim>\<open>simulateProgress\<close> publishes is non-decreasing and within 0 to 90, for
  draws of \<^verbatim>\<open>Math.random()\<close> that are not negative.
\<close>

theorem progress_follows_snapshots:
  "map progress (apply_snapshots s js) = map job_progress js \<and>
   ((\<forall>u\<in>set us. 0 \<le> u) \<longrightarrow>
      sorted (map (\<lambda>x. status_progress (snd (snd x))) (simulateProgress us prev)) \<and>
      (\<forall>x\<in>set (simulateProgress us prev).
         0 \<le> status_progress (snd (snd x)) \<and> status_progress (snd (snd x)) \<le> 90))"
proof -
  have "sorted (map (\<lambda>x. status_progress (snd (snd x))) (simulateProgress us prev)) \<and>
      (\<forall>x\<in>set (simulateProgress us prev).
         0 \<le> status_progress (snd (snd x)) \<and> status_progress (snd (snd x)) \<le> 90)"
    if us: "\<forall>u\<in>set us. 0 \<le> u"
  proof -
    have pub: "status_progress (snd (snd x)) = fst x"
      if "x \<in> set (interval_run 0 us prev)" for x
      using interval_run_published [of 0 us x prev] us that by simp
    have bounds: "\<forall>x\<in>set (interval_run 0 us prev). 0 \<le> fst x \<and> fst x \<le> 90"
      using interval_run_bounds [of 0 us prev] us by simp
    have eq: "map (\<lambda>x. status_progress (snd (snd x))) (interval_run 0 us prev)
            = map fst (interval_run 0 us prev)"
      using pub by simp
    have "sorted (map fst (interval_run 0 us prev))"
      using interval_run_sorted [of 0 us prev] us by simp
    then have "sorted (map (\<lambda>x. status_progress (snd (snd x))) (interval_run 0 us prev))"
      by (simp only: eq)
    moreover have "\<forall>x\<in>set (interval_run 0 us prev).
        0 \<le> status_progress (snd (snd x)) \<and> status_progress (snd (snd x)) \<le> 90"
      using bounds pub by simp
    ultimately show ?thesis
      by (simp add: simulateProgress_def)
  qed
  then show ?thesis
    by (simp add: apply_snapshots_progress)
qed

theorem progress_follows_snapshots_witness:
  "map progress (apply_snapshots pending_J1
     [snapshot ''J1'' ''processing'' 40, snapshot ''J1'' ''completed'' 100]) = [40, 100] \<and>
   list_all (\<lambda>u. 0 \<le> u) [1/2, 1/2, 9/10, 9/10, 9/10, 1/2 :: real] \<and>
   map (\<lambda>x. status_progress (snd (snd x)))
     (simulateProgress [1/2, 1/2, 9/10, 9/10, 9/10, 1/2] starting_status) = [15, 30, 57, 84, 90]"
  using progress_follows_snapshots [where s = pending_J1
      and js = "[snapshot ''J1'' ''processing'' 40, snapshot ''J1'' ''completed'' 100]"
      and us = "[1/2, 1/2, 9/10, 9/10, 9/10, 1/2]" and prev = starting_status]
  by (simp add: snapshot_def simulateProgress_def tick_def Let_def starting_status_def
      messages_def index_js_def)

subsection \<open>The simulated progress\<close>

text \<open>
  Claim C10. On every tick of \<^verbatim>\<open>simulateProgress\<close> the accumulated progress is at
  most 90, the published progress is at most 90, the index
  \<^verbatim>\<open>Math.min(messageIndex, messages.length - 1)\<close> lies within the four messages, and
  the published message is the message at that index, never \<^verbatim>\<open>undefined\<close>. The
  draws of \<^verbatim>\<open>Math.random()\<close> are not negative; the numbers are reals, and the
  argument uses only their order and \<^verbatim>\<open>Math.floor\<close>.
\<close>

theorem simulateProgress_capped:
  assumes "\<forall>u\<in>set us. 0 \<le> u"
  shows "\<forall>(p, messageIndex, st)\<in>set (simulateProgress us prev).
           p \<le> 90 \<and> status_progress st \<le> 90 \<and>
           0 \<le> min messageIndex (int (length messages) - 1) \<and>
           min messageIndex (int (length messages) - 1) < int (length messages) \<and>
           status_message st
             = Some (messages ! nat (min messageIndex (int (length messages) - 1)))"
proof -
  have "p \<le> 90 \<and> status_progress st \<le> 90 \<and>
           0 \<le> min messageIndex (int (length messages) - 1) \<and>
           min messageIndex (int (length messages) - 1) < int (length messages) \<and>
           status_message st
             = Some (messages ! nat (min messageIndex (int (length messages) - 1)))"
    if x: "(p, messageIndex, st) \<in> set (interval_run 0 us prev)" for p messageIndex st
  proof -
    from x interval_run_ticks obtain p' u' prev'
      where t: "(p, messageIndex, st) = tick p' u' prev'"
      by blast
    from x interval_run_bounds [of 0 us prev] assms have p: "0 \<le> p" "p \<le> 90"
      by auto
    from t have i: "messageIndex = \<lfloor>p / 25\<rfloor>"
      using tick_index [of p' u' prev'] by (metis fst_conv snd_conv)
    from t have pr: "status_progress st = min p 100"
      using tick_published(1) [of p' u' prev'] by (metis fst_conv snd_conv)
    from t have ms: "status_message st
        = index_js messages (min messageIndex (int (length messages) - 1))"
      using tick_published(2) [of p' u' prev'] by (metis fst_conv snd_conv)
    from i p floor_quarter [of p] have r: "0 \<le> messageIndex" "messageIndex \<le> 3"
      by simp_all
    have len: "int (length messages) - 1 = 3"
      by (simp add: messages_def)
    from r have m: "min messageIndex 3 = messageIndex" by simp
    from r ms have "status_message st = Some (messages ! nat messageIndex)"
      by (simp add: len m index_js_messages)
    moreover have "int (length messages) = 4"
      by (simp add: messages_def)
    ultimately show ?thesis
      using p pr r by (simp add: m)
  qed
  then show ?thesis
    by (auto simp add: simulateProgress_def)
qed

theorem simulateProgress_capped_witness:
  "list_all (\<lambda>u. 0 \<le> u) [1/2, 9/10, 9/10, 9/10, 1/2 :: real] \<and>
   map (\<lambda>(p, messageIndex, st). (p, min messageIndex (int (length messages) - 1),
          status_progress st, status_message st))
     (simulateProgress [1/2, 9/10, 9/10, 9/10, 1/2] starting_status) =
   [(15, 0, 15, Some ''Analyzing image...''),
    (42, 1, 42, Some ''Detecting pose...''),
    (69, 2, 69, Some ''Processing garments...''),
    (90, 3, 90, Some ''Generating result...'')]"
  using simulateProgress_capped [where us = "[1/2, 9/10, 9/10, 9/10, 1/2]"
      and prev = starting_status]
  by (simp add: simulateProgress_def tick_def Let_def starting_status_def messages_def
      index_js_def)

subsection \<open>Files that are not images\<close>

text \<open>
  Claim C8. For a file whose type does not start with \<open>image/\<close>,
  \<^verbatim>\<open>handleFile\<close> does nothing: no reader is started, \<^verbatim>\<open>onImageUpload\<close> is not
  called, and the preview in \<^verbatim>\<open>uploadedImage\<close> is what it was.
\<close>

theorem handleFile_ignores_other_types:
  assumes "\<not> prefix ''image/'' (file_type file)"
  shows "handleFile file loaded s = (s, [])"
  using assms by (simp add: handleFile_def)

theorem handleFile_ignores_other_types_witness:
  "\<not> prefix ''image/'' (file_type \<lparr>file_name = ''notes.pdf'', file_type = ''application/pdf''\<rparr>) \<and>
   handleFile \<lparr>file_name = ''notes.pdf'', file_type = ''application/pdf''\<rparr> (Some ''data:...'')
       \<lparr>dragActive = False, uploadedImage = Some ''data:image/png;base64,AAAA''\<rparr> =
     (\<lparr>dragActive = False, uploadedImage = Some ''data:image/png;base64,AAAA''\<rparr>, []) \<and>
   snd (handleFile (png ''model.png'') (Some ''data:...'')
       \<lparr>dragActive = False, uploadedImage = None\<rparr>) =
     [ReadAsDataURL (png ''model.png''), OnImageUpload (png ''model.png'')]"
  using handleFile_ignores_other_types [of
      "\<lparr>file_name = ''notes.pdf'', file_type = ''application/pdf''\<rparr>"
      "Some ''data:...''"
      "\<lparr>dragActive = False, uploadedImage = Some ''data:image/png;base64,AAAA''\<rparr>"]
  by (simp add: handleFile_def png_def)

subsection \<open>Uploading\<close>

text \<open>
  Claim C9. After \<^verbatim>\<open>uploadImage\<close> has finished, \<^verbatim>\<open>isUploading\<close> is false,
  whether the upload succeeded, the validation failed or something was thrown. When the
  validation fails, the error is set (to the validation's message, or \<open>Invalid file\<close>)
  and the image and the preview keep their earlier values.
\<close>

theorem uploadImage_settles:
  "isUploading (uploadImage file validated previewed s) = False \<and>
   (\<forall>v. validated = Resolved v \<and> \<not> isValid v \<longrightarrow>
      upload_error (uploadImage file validated previewed s)
        = Some (or_else (validation_error v) ''Invalid file'') \<and>
      image_file (uploadImage file validated previewed s) = image_file s \<and>
      preview (uploadImage file validated previewed s) = preview s)"
  by (simp add: uploadImage_def Let_def split: outcome.splits)

theorem uploadImage_settles_witness:
  "uploadImage (png ''big.png'')
     (Resolved \<lparr>isValid = False, validation_error = Some ''File too large''\<rparr>)
     (Resolved ''blob:1'')
     \<lparr>image_file = Some (png ''old.png''), preview = Some ''blob:0'', isUploading = False,
      upload_error = None\<rparr> =
   \<lparr>image_file = Some (png ''old.png''), preview = Some ''blob:0'', isUploading = False,
    upload_error = Some ''File too large''\<rparr> \<and>
   uploadImage (png ''new.png'') (Resolved \<lparr>isValid = True, validation_error = None\<rparr>)
     (Rejected NonError)
     \<lparr>image_file = None, preview = None, isUploading = False, upload_error = None\<rparr> =
   \<lparr>image_file = None, preview = None, isUploading = False,
    upload_error = Some ''Upload failed''\<rparr>"
  using uploadImage_settles [of "png ''big.png''"
      "Resolved \<lparr>isValid = False, validation_error = Some ''File too large''\<rparr>"
      "Resolved ''blob:1''"
      "\<lparr>image_file = Some (png ''old.png''), preview = Some ''blob:0'',
        isUploading = False, upload_error = None\<rparr>"]
  by (simp add: uploadImage_def)

end
